theory Spec2Isabelle
  imports Complex_Main
begin

section \<open>Values and errors\<close>

text \<open>
  The status line script \<^verbatim>\<open>hooks/statusline.py\<close> reads one JSON document, consults three
  cached resolvers (git context, session title, auto-compact settings), sends one payload over a
  local socket and prints a one-line status.  The model below follows the script function by
  function.  JSON values are a datatype; floats are read as reals; a Python \<^verbatim>\<open>dict\<close> obtained
  from JSON is an association list with distinct keys, looked up with \<^const>\<open>map_of\<close>.
  One \<^typ>\<open>char\<close> stands for one character of a Python string, so strings range over the
  code points below 256.
\<close>

datatype json =
    JNull
  | JBool bool
  | JInt int
  | JFloat real
  | JStr string
  | JArr "json list"
  | JObj "(string \<times> json) list"

datatype pyerr = ValueError | TypeError | AttributeError | OSError

text \<open>
  The three outcomes of \<^verbatim>\<open>json.loads\<close> that the script tells apart: a value, a
  \<^verbatim>\<open>JSONDecodeError\<close>, and any other exception (a plain \<^verbatim>\<open>ValueError\<close> for an integer of more
  than 4300 digits, a \<^verbatim>\<open>RecursionError\<close> for deep nesting).
\<close>

datatype loads_result = Loaded json | JSONDecodeError | LoadsRaised

text \<open>Python truthiness of a JSON value, as tested by \<^verbatim>\<open>if x\<close> and \<^verbatim>\<open>not x\<close>.\<close>

fun truthy :: "json \<Rightarrow> bool" where
  "truthy JNull = False"
| "truthy (JBool b) = b"
| "truthy (JInt n) = (n \<noteq> 0)"
| "truthy (JFloat r) = (r \<noteq> 0)"
| "truthy (JStr s) = (s \<noteq> [])"
| "truthy (JArr xs) = (xs \<noteq> [])"
| "truthy (JObj kvs) = (kvs \<noteq> [])"

text \<open>\<^verbatim>\<open>d.get(k, default)\<close> on a dict.\<close>

definition dict_get :: "(string \<times> json) list \<Rightarrow> string \<Rightarrow> json \<Rightarrow> json" where
  "dict_get kvs k d = (case map_of kvs k of None \<Rightarrow> d | Some v \<Rightarrow> v)"

text \<open>\<^verbatim>\<open>x.get(k, default)\<close> on any value: only a dict has the method.\<close>

fun py_get :: "json \<Rightarrow> string \<Rightarrow> json \<Rightarrow> pyerr + json" where
  "py_get (JObj kvs) k d = Inr (dict_get kvs k d)"
| "py_get _ k d = Inl AttributeError"

section \<open>The host: file system, clock, environment, subprocesses, socket\<close>

text \<open>
  Everything the script asks of the operating system is a field of one record.  The fields
  \<open>files\<close>, \<open>clock\<close>, \<open>trace\<close> and \<open>stdout\<close> change during a run; the rest is fixed.  A
  regular file is the text stored on disk and its modification time.  Opening a file can fail
  (\<open>readable\<close>, \<open>writable\<close>); the script swallows those failures.  The trace records the calls
  the properties below speak about.  No call is instantaneous: \<open>latency\<close> is the time each
  recorded call takes, and the clock moves on by that much.  \<open>encodable\<close> tells which
  characters the default text encoding of the platform can store.
\<close>

datatype io_event =
    CacheRead string
  | CacheWrite string json
  | RunHelper string string
  | RunGit string
  | SocketExists string
  | SocketConnect string
  | SocketSend string string
  | PipeOpen string
  | PipeWrite string string

record proc =
  returncode :: int
  proc_stdout :: string

record world =
  files :: "string \<Rightarrow> (string \<times> real) option"
  clock :: real
  trace :: "io_event list"
  readable :: "string \<Rightarrow> bool"
  writable :: "string \<Rightarrow> bool"
  is_dir :: "string \<Rightarrow> bool"
  path_exists :: "string \<Rightarrow> bool"
  is_executable :: "string \<Rightarrow> bool"
  environ :: "string \<Rightarrow> string option"
  is_windows :: bool
  tmpdir :: string
  script_dir :: string
  home :: string
  path_join :: "string \<Rightarrow> string \<Rightarrow> string"
  path_dirname :: "string \<Rightarrow> string"
  path_basename :: "string \<Rightarrow> string"
  path_realpath :: "string \<Rightarrow> string"
  run_helper :: "string \<Rightarrow> string \<Rightarrow> proc option"
  run_git :: "string \<Rightarrow> proc option"
  json_loads :: "string \<Rightarrow> loads_result"
  json_dumps :: "json \<Rightarrow> string option"
  py_str :: "json \<Rightarrow> string"
  fd_is_dir :: "int \<Rightarrow> bool"
  stdout :: string
  socket_connect :: "string \<Rightarrow> bool"
  socket_sendall :: "string \<Rightarrow> string \<Rightarrow> bool"
  pipe_write :: "string \<Rightarrow> string \<Rightarrow> bool"
  latency :: "io_event \<Rightarrow> real"
  encodable :: "char \<Rightarrow> bool"

definition log_event :: "io_event \<Rightarrow> world \<Rightarrow> world" where
  "log_event e w = w\<lparr>trace := trace w @ [e], clock := clock w + latency w e\<rparr>"

text \<open>\<^verbatim>\<open>os.environ.get(name, default)\<close>.\<close>

definition env_get :: "world \<Rightarrow> string \<Rightarrow> string \<Rightarrow> string" where
  "env_get w name d = (case environ w name of None \<Rightarrow> d | Some v \<Rightarrow> v)"

text \<open>\<^verbatim>\<open>os.path.isfile\<close>.\<close>

definition isfile :: "world \<Rightarrow> string \<Rightarrow> bool" where
  "isfile w p = (files w p \<noteq> None)"

section \<open>Text files\<close>

text \<open>
  The script opens every file in text mode.  On reading, \<^verbatim>\<open>\r\n\<close> and a lone \<^verbatim>\<open>\r\<close> both
  arrive as \<^verbatim>\<open>\n\<close>; on writing, \<^verbatim>\<open>\n\<close> is stored as the line separator of the platform.
\<close>

definition nl :: char where
  "nl = CHR 0x0A"

definition cr :: char where
  "cr = CHR 0x0D"

fun universal_newlines :: "string \<Rightarrow> string" where
  "universal_newlines [] = []"
| "universal_newlines [c] = (if c = cr then [nl] else [c])"
| "universal_newlines (c # d # cs) =
     (if c = cr \<and> d = nl then nl # universal_newlines cs
      else if c = cr then nl # universal_newlines (d # cs)
      else c # universal_newlines (d # cs))"

definition to_linesep :: "world \<Rightarrow> string \<Rightarrow> string" where
  "to_linesep w s =
     (if is_windows w then concat (map (\<lambda>c. if c = nl then [cr, nl] else [c]) s) else s)"

section \<open>Cache utilities\<close>

text \<open>\<^verbatim>\<open>s.replace(a, b)\<close> for single characters.\<close>

definition replace_char :: "char \<Rightarrow> char \<Rightarrow> string \<Rightarrow> string" where
  "replace_char a b s = map (\<lambda>c. if c = a then b else c) s"

definition cache_path :: "world \<Rightarrow> string \<Rightarrow> string \<Rightarrow> string" where
  "cache_path w prefix key =
     (let safe_key = replace_char CHR '':'' CHR ''-''
                       (replace_char (CHR 0x5C) CHR ''-''
                         (replace_char CHR ''/'' CHR ''-'' key))
      in path_join w (tmpdir w) (''jacques-'' @ prefix @ ''-'' @ safe_key @ ''.cache''))"

text \<open>
  \<^verbatim>\<open>read_cache\<close>: absent when the path is no regular file, when the file is older than
  \<open>max_age_seconds\<close> at the time of the call, or when reading raises.
\<close>

definition read_cache :: "string \<Rightarrow> real \<Rightarrow> world \<Rightarrow> string option \<times> world" where
  "read_cache path max_age_seconds w =
     (let w' = log_event (CacheRead path) w in
      case files w path of
        None \<Rightarrow> (None, w')
      | Some (content, mtime) \<Rightarrow>
          (let age = clock w - mtime in
           if age > max_age_seconds then (None, w')
           else if readable w path then (Some (universal_newlines content), w')
           else (None, w')))"

text \<open>
  \<^verbatim>\<open>write_cache\<close>: opening for writing truncates the file; writing a value that is not a
  string, or a string with a character the text encoding cannot store, raises after the
  truncation; every failure is swallowed.  The file is stamped with the time of the call.
\<close>

definition write_cache :: "string \<Rightarrow> json \<Rightarrow> world \<Rightarrow> world" where
  "write_cache path content w =
     (let w' = log_event (CacheWrite path content) w in
      if \<not> writable w path then w'
      else (case content of
              JStr s \<Rightarrow>
                if list_all (encodable w) s
                then w'\<lparr>files := (files w')(path \<mapsto> (to_linesep w s, clock w))\<rparr>
                else w'\<lparr>files := (files w')(path \<mapsto> ([], clock w))\<rparr>
            | _ \<Rightarrow> w'\<lparr>files := (files w')(path \<mapsto> ([], clock w))\<rparr>))"

section \<open>Python string operations\<close>

text \<open>\<^verbatim>\<open>s.split(sep)\<close> for a one-character separator: never an empty list.\<close>

fun py_split :: "char \<Rightarrow> string \<Rightarrow> string list" where
  "py_split sep [] = [[]]"
| "py_split sep (c # cs) =
     (if c = sep then [] # py_split sep cs
      else (case py_split sep cs of [] \<Rightarrow> [[c]] | x # xs \<Rightarrow> (c # x) # xs))"

text \<open>The characters \<^verbatim>\<open>str.strip()\<close> removes, among the code points below 256.\<close>

definition is_space :: "char \<Rightarrow> bool" where
  "is_space c =
     (let n = (of_char c :: nat)
      in (9 \<le> n \<and> n \<le> 13) \<or> (28 \<le> n \<and> n \<le> 32) \<or> n = 133 \<or> n = 160)"

definition py_strip :: "string \<Rightarrow> string" where
  "py_strip s = rev (dropWhile is_space (rev (dropWhile is_space s)))"

text \<open>\<^verbatim>\<open>pat in s\<close> for strings.\<close>

fun py_in :: "string \<Rightarrow> string \<Rightarrow> bool" where
  "py_in pat [] = (pat = [])"
| "py_in pat (c # cs) = (take (length pat) (c # cs) = pat \<or> py_in pat cs)"

text \<open>
  \<^verbatim>\<open>int(s)\<close> for a string: surrounding whitespace, an optional sign, decimal digits with
  single underscores between digits; anything else raises \<^verbatim>\<open>ValueError\<close>, and so does a
  string of more than 4300 digits.  The whitespace \<^verbatim>\<open>int\<close> removes is narrower than that of
  \<^verbatim>\<open>str.strip\<close>: the separators 0x1C to 0x1F are not part of it.
\<close>

definition is_int_space :: "char \<Rightarrow> bool" where
  "is_int_space c =
     (let n = (of_char c :: nat)
      in (9 \<le> n \<and> n \<le> 13) \<or> n = 32 \<or> n = 133 \<or> n = 160)"

definition int_strip :: "string \<Rightarrow> string" where
  "int_strip s = rev (dropWhile is_int_space (rev (dropWhile is_int_space s)))"

definition is_digit :: "char \<Rightarrow> bool" where
  "is_digit c = (let n = (of_char c :: nat) in 48 \<le> n \<and> n \<le> 57)"

definition digit_val :: "char \<Rightarrow> int" where
  "digit_val c = int (of_char c) - 48"

definition max_str_digits :: nat where
  "max_str_digits = 4300"

fun parse_digits :: "int \<Rightarrow> bool \<Rightarrow> string \<Rightarrow> int option" where
  "parse_digits acc prev [] = (if prev then Some acc else None)"
| "parse_digits acc prev (c # cs) =
     (if is_digit c then parse_digits (10 * acc + digit_val c) True cs
      else if c = CHR ''_'' \<and> prev then parse_digits acc False cs
      else None)"

definition parse_int_body :: "string \<Rightarrow> int option" where
  "parse_int_body body =
     (if length (filter is_digit body) > max_str_digits then None
      else parse_digits 0 False body)"

definition py_int_str :: "string \<Rightarrow> pyerr + int" where
  "py_int_str s =
     (case int_strip s of
        [] \<Rightarrow> Inl ValueError
      | c # cs \<Rightarrow>
          if c = CHR ''-'' then
            (case parse_int_body cs of None \<Rightarrow> Inl ValueError | Some n \<Rightarrow> Inr (- n))
          else if c = CHR ''+'' then
            (case parse_int_body cs of None \<Rightarrow> Inl ValueError | Some n \<Rightarrow> Inr n)
          else
            (case parse_int_body (c # cs) of None \<Rightarrow> Inl ValueError | Some n \<Rightarrow> Inr n))"

text \<open>\<^verbatim>\<open>str(n)\<close> for an integer, as an f-string prints it.\<close>

definition digit_char :: "nat \<Rightarrow> char" where
  "digit_char d = char_of (48 + d)"

fun show_nat :: "nat \<Rightarrow> string" where
  "show_nat n = (if n < 10 then [digit_char n] else show_nat (n div 10) @ [digit_char (n mod 10)])"

definition show_int :: "int \<Rightarrow> string" where
  "show_int i = (if i < 0 then CHR ''-'' # show_nat (nat (- i)) else show_nat (nat i))"

text \<open>\<^verbatim>\<open>int(x)\<close> for a JSON value: a float is truncated towards zero.\<close>

definition trunc :: "real \<Rightarrow> int" where
  "trunc r = (if 0 \<le> r then \<lfloor>r\<rfloor> else \<lceil>r\<rceil>)"

fun py_int :: "json \<Rightarrow> pyerr + int" where
  "py_int (JInt n) = Inr n"
| "py_int (JFloat r) = Inr (trunc r)"
| "py_int (JBool b) = Inr (if b then 1 else 0)"
| "py_int (JStr s) = py_int_str s"
| "py_int _ = Inl TypeError"

text \<open>A value inside an f-string: a string prints as itself, anything else through \<^verbatim>\<open>str()\<close>.\<close>

definition fmt :: "world \<Rightarrow> json \<Rightarrow> string" where
  "fmt w v = (case v of JStr s \<Rightarrow> s | _ \<Rightarrow> py_str w v)"

text \<open>Iterating a text file: the lines, each with its line end.\<close>

fun file_lines :: "string \<Rightarrow> string list" where
  "file_lines [] = []"
| "file_lines (c # cs) =
     (if c = nl then [c] # file_lines cs
      else (case file_lines cs of [] \<Rightarrow> [[c]] | l # ls \<Rightarrow> (c # l) # ls))"

text \<open>\<^verbatim>\<open>open(path, 'r').read()\<close>: absent when opening or reading raises.\<close>

definition read_file :: "world \<Rightarrow> string \<Rightarrow> string option" where
  "read_file w p =
     (case files w p of
        None \<Rightarrow> None
      | Some (content, mtime) \<Rightarrow>
          if readable w p then Some (universal_newlines content) else None)"

text \<open>Sequencing of computations that may raise.\<close>

definition bind_err :: "pyerr + 'a \<Rightarrow> ('a \<Rightarrow> pyerr + 'b) \<Rightarrow> pyerr + 'b" where
  "bind_err m f = (case m of Inl e \<Rightarrow> Inl e | Inr x \<Rightarrow> f x)"

section \<open>Git detection (60 s cache)\<close>

record git_info =
  git_branch :: string
  git_worktree :: string
  git_repo_root :: string

definition empty_git :: git_info where
  "empty_git = \<lparr>git_branch = [], git_worktree = [], git_repo_root = []\<rparr>"

text \<open>\<^verbatim>\<open>lines[i] if len(lines) > i else ''\<close>.\<close>

definition line_or_empty :: "string list \<Rightarrow> nat \<Rightarrow> string" where
  "line_or_empty lines i = (if length lines > i then lines ! i else [])"

definition three_lines :: "string \<Rightarrow> git_info" where
  "three_lines text =
     (let lines = py_split nl text
      in \<lparr>git_branch = line_or_empty lines 0,
          git_worktree = line_or_empty lines 1,
          git_repo_root = line_or_empty lines 2\<rparr>)"

text \<open>The text \<^verbatim>\<open>f"{branch}\n{worktree}\n{root}"\<close> written to the cache.\<close>

definition git_cache_text :: "git_info \<Rightarrow> string" where
  "git_cache_text r = git_branch r @ [nl] @ git_worktree r @ [nl] @ git_repo_root r"

text \<open>
  The helper script, tried on non-Windows platforms when it is an executable file.  The result
  is absent when the script is not run, raises, times out or exits non-zero.
\<close>

definition git_helper :: "string \<Rightarrow> world \<Rightarrow> git_info option \<times> world" where
  "git_helper project_dir w =
     (if \<not> is_windows w then
        (let script_path = path_join w (script_dir w) ''git-detect.sh'' in
         if isfile w script_path \<and> is_executable w script_path then
           (let w' = log_event (RunHelper script_path project_dir) w in
            case run_helper w script_path project_dir of
              None \<Rightarrow> (None, w')
            | Some p \<Rightarrow>
                if returncode p = 0 then (Some (three_lines (proc_stdout p)), w')
                else (None, w'))
         else (None, w))
      else (None, w))"

text \<open>The inline fallback: one \<^verbatim>\<open>git rev-parse\<close> call; every failure leaves the fields empty.\<close>

definition git_inline :: "string \<Rightarrow> world \<Rightarrow> git_info \<times> world" where
  "git_inline project_dir w =
     (let w' = log_event (RunGit project_dir) w in
      case run_git w project_dir of
        None \<Rightarrow> (empty_git, w')
      | Some p \<Rightarrow>
          if returncode p = 0 then
            (let lines = py_split nl (py_strip (proc_stdout p)) in
             if length lines \<ge> 2 then
               (let branch = lines ! 0; common = lines ! 1 in
                if common = ''.git'' then
                  (\<lparr>git_branch = branch, git_worktree = [],
                    git_repo_root = path_realpath w project_dir\<rparr>, w')
                else if common \<noteq> [] then
                  (\<lparr>git_branch = branch, git_worktree = path_basename w project_dir,
                    git_repo_root =
                      path_dirname w (path_realpath w (path_join w project_dir common))\<rparr>, w')
                else (\<lparr>git_branch = branch, git_worktree = [], git_repo_root = []\<rparr>, w'))
             else (empty_git, w'))
          else (empty_git, w'))"

text \<open>The part of \<^verbatim>\<open>detect_git_info\<close> after the directory check.\<close>

definition detect_git_dir :: "string \<Rightarrow> world \<Rightarrow> git_info \<times> world" where
  "detect_git_dir project_dir w =
     (let cp = cache_path w ''git'' project_dir in
      case read_cache cp 60 w of
        (Some cached, w1) \<Rightarrow> (three_lines cached, w1)
      | (None, w1) \<Rightarrow>
          (case git_helper project_dir w1 of
             (Some r, w2) \<Rightarrow> (r, write_cache cp (JStr (git_cache_text r)) w2)
           | (None, w2) \<Rightarrow>
               (case git_inline project_dir w2 of
                  (r, w3) \<Rightarrow> (r, write_cache cp (JStr (git_cache_text r)) w3))))"

text \<open>
  \<^verbatim>\<open>detect_git_info\<close>.  The argument comes from the JSON input.  A falsy value or a string that
  names no directory gives the empty result at once.  \<^verbatim>\<open>os.path.isdir\<close> reads an integer as a
  file descriptor and raises \<^verbatim>\<open>TypeError\<close> on a float, list or dict; an integer that passes the
  check fails in \<^verbatim>\<open>cache_path\<close>, which calls \<^verbatim>\<open>key.replace\<close>.
\<close>

definition detect_git_info :: "json \<Rightarrow> world \<Rightarrow> pyerr + (git_info \<times> world)" where
  "detect_git_info project_dir w =
     (if \<not> truthy project_dir then Inr (empty_git, w)
      else (case project_dir of
              JStr p \<Rightarrow> if \<not> is_dir w p then Inr (empty_git, w) else Inr (detect_git_dir p w)
            | JInt n \<Rightarrow> if \<not> fd_is_dir w n then Inr (empty_git, w) else Inl AttributeError
            | JBool b \<Rightarrow> if \<not> fd_is_dir w 1 then Inr (empty_git, w) else Inl AttributeError
            | _ \<Rightarrow> Inl TypeError))"

section \<open>Auto-compact settings (5 min cache)\<close>

record settings =
  enabled :: bool
  threshold :: int
  bug_threshold :: "int option"

text \<open>The cached text \<^verbatim>\<open>f"{enabled_str}|{threshold}|{bug_str}"\<close>.\<close>

definition settings_cache_text :: "settings \<Rightarrow> string" where
  "settings_cache_text st =
     (if enabled st then ''true'' else ''false'') @ ''|'' @ show_int (threshold st) @ ''|'' @
     (case bug_threshold st of None \<Rightarrow> ''null'' | Some b \<Rightarrow> show_int b)"

text \<open>
  The cache-hit branch, for a cached text of at least three fields.  Only the threshold is
  parsed inside a \<^verbatim>\<open>try\<close>; the third field is parsed by a bare \<^verbatim>\<open>int(parts[2])\<close>.
\<close>

definition settings_from_cache :: "settings \<Rightarrow> string list \<Rightarrow> pyerr + settings" where
  "settings_from_cache st parts =
     (let st1 = st\<lparr>enabled := (parts ! 0 = ''true'')\<rparr>;
          st2 = (case py_int_str (parts ! 1) of
                   Inr t \<Rightarrow> st1\<lparr>threshold := t\<rparr>
                 | Inl e \<Rightarrow> st1)
      in if parts ! 2 \<noteq> ''null'' then
           bind_err (py_int_str (parts ! 2)) (\<lambda>b. Inr (st2\<lparr>bug_threshold := Some b\<rparr>))
         else Inr (st2\<lparr>bug_threshold := None\<rparr>))"

text \<open>The cache-miss branch: Claude's \<^verbatim>\<open>settings.json\<close>, then the cache write.\<close>

definition settings_from_config :: "settings \<Rightarrow> world \<Rightarrow> settings" where
  "settings_from_config st w =
     (let claude_dir = env_get w ''CLAUDE_CONFIG_DIR'' (path_join w (home w) ''.claude'');
          settings_path = path_join w claude_dir ''settings.json''
      in if isfile w settings_path then
           (case read_file w settings_path of
              None \<Rightarrow> st
            | Some text \<Rightarrow>
                (case json_loads w text of
                   Loaded data \<Rightarrow>
                     (case py_get data ''autoCompact'' JNull of
                        Inl e \<Rightarrow> st
                      | Inr ac \<Rightarrow>
                          if ac = JBool False
                          then st\<lparr>enabled := False, bug_threshold := Some 78\<rparr>
                          else st)
                 | _ \<Rightarrow> st))
         else st)"

definition settings_miss :: "settings \<Rightarrow> string \<Rightarrow> world \<Rightarrow> settings \<times> world" where
  "settings_miss st cp w =
     (let st' = settings_from_config st w
      in (st', write_cache cp (JStr (settings_cache_text st')) w))"

definition read_autocompact_settings :: "world \<Rightarrow> pyerr + (settings \<times> world)" where
  "read_autocompact_settings w =
     bind_err (py_int_str (env_get w ''CLAUDE_AUTOCOMPACT_PCT_OVERRIDE'' ''95'')) (\<lambda>t.
       let st = \<lparr>enabled = True, threshold = t, bug_threshold = None\<rparr>;
           cp = path_join w (tmpdir w) ''jacques-settings.cache''
       in case read_cache cp 300 w of
            (Some cached, w1) \<Rightarrow>
              (let parts = py_split CHR ''|'' cached in
               if length parts \<ge> 3 then
                 bind_err (settings_from_cache st parts) (\<lambda>st'. Inr (st', w1))
               else Inr (settings_miss st cp w1))
          | (None, w1) \<Rightarrow> Inr (settings_miss st cp w1))"

section \<open>Session title extraction (5 min cache)\<close>

definition dq :: char where
  "dq = CHR 0x22"

text \<open>The markers searched in a transcript line, with and without a space after the colon.\<close>

definition type_tag :: "bool \<Rightarrow> string \<Rightarrow> string" where
  "type_tag spaced name =
     [dq] @ ''type'' @ [dq] @ '':'' @ (if spaced then '' '' else []) @ [dq] @ name @ [dq]"

definition has_type :: "string \<Rightarrow> string \<Rightarrow> bool" where
  "has_type name line = (py_in (type_tag False name) line \<or> py_in (type_tag True name) line)"

text \<open>
  Source 1, the loop over \<^verbatim>\<open>index_data.get('entries', [])\<close>.  The whole block is inside one
  \<^verbatim>\<open>try\<close>: an entry without a \<^verbatim>\<open>get\<close> method ends the search with the title still empty.
\<close>

fun index_entries :: "string \<Rightarrow> json list \<Rightarrow> json" where
  "index_entries session_id [] = JStr []"
| "index_entries session_id (entry # rest) =
     (case entry of
        JObj kvs \<Rightarrow>
          if dict_get kvs ''sessionId'' JNull = JStr session_id
          then dict_get kvs ''summary'' (JStr [])
          else index_entries session_id rest
      | _ \<Rightarrow> JStr [])"

text \<open>What a \<^verbatim>\<open>for\<close> loop iterates over: absent when the value is not iterable.\<close>

fun py_iter :: "json \<Rightarrow> json list option" where
  "py_iter (JArr xs) = Some xs"
| "py_iter (JStr s) = Some (map (\<lambda>c. JStr [c]) s)"
| "py_iter (JObj kvs) = Some (map (\<lambda>kv. JStr (fst kv)) kvs)"
| "py_iter _ = None"

definition index_title :: "string \<Rightarrow> string \<Rightarrow> world \<Rightarrow> json" where
  "index_title session_id transcript_path w =
     (let transcript_dir = path_dirname w transcript_path;
          index_path = path_join w transcript_dir ''sessions-index.json''
      in if isfile w index_path then
           (case read_file w index_path of
              None \<Rightarrow> JStr []
            | Some text \<Rightarrow>
                (case json_loads w text of
                   Loaded index_data \<Rightarrow>
                     (case py_get index_data ''entries'' (JArr []) of
                        Inl e \<Rightarrow> JStr []
                      | Inr entries \<Rightarrow>
                          (case py_iter entries of
                             None \<Rightarrow> JStr []
                           | Some es \<Rightarrow> index_entries session_id es))
                 | _ \<Rightarrow> JStr []))
         else JStr [])"

text \<open>
  Source 2, the loop over the transcript lines.  A line that raises \<^verbatim>\<open>JSONDecodeError\<close> is
  passed over.  Any other exception of \<^verbatim>\<open>json.loads\<close>, and a parsed line without a \<^verbatim>\<open>get\<close>
  method, raise into the outer \<^verbatim>\<open>except\<close>, which ends the scan with the title found so far.
\<close>

fun summary_scan :: "world \<Rightarrow> json \<Rightarrow> string list \<Rightarrow> json" where
  "summary_scan w title [] = title"
| "summary_scan w title (l # ls) =
     (let line = py_strip l in
      if has_type ''summary'' line then
        (case json_loads w line of
           JSONDecodeError \<Rightarrow> summary_scan w title ls
         | LoadsRaised \<Rightarrow> title
         | Loaded entry \<Rightarrow>
             (case py_get entry ''summary'' (JStr []) of
                Inl e \<Rightarrow> title
              | Inr s \<Rightarrow> summary_scan w (if truthy s then s else title) ls))
      else summary_scan w title ls)"

text \<open>The title built from a user message: \<^verbatim>\<open>content.strip().replace('\n', ' ')[:50] + '...'\<close>.\<close>

definition message_title :: "string \<Rightarrow> string" where
  "message_title content = take 50 (replace_char nl CHR '' '' (py_strip content)) @ ''...''"

text \<open>
  Source 3, the loop that stops at the first real user message, with the same two ways out on
  an exception.
\<close>

fun user_scan :: "world \<Rightarrow> json \<Rightarrow> string list \<Rightarrow> json" where
  "user_scan w title [] = title"
| "user_scan w title (l # ls) =
     (let line = py_strip l in
      if \<not> has_type ''user'' line then user_scan w title ls
      else
        (case json_loads w line of
           JSONDecodeError \<Rightarrow> user_scan w title ls
         | LoadsRaised \<Rightarrow> title
         | Loaded entry \<Rightarrow>
             (case py_get entry ''message'' (JObj []) of
                Inl e \<Rightarrow> title
              | Inr msg \<Rightarrow>
                  (let content = (case msg of
                                    JObj kvs \<Rightarrow> dict_get kvs ''content'' (JStr [])
                                  | _ \<Rightarrow> JStr [])
                   in case content of
                        JStr c \<Rightarrow>
                          if c = [] then user_scan w title ls
                          else
                            (let first_char = take 1 (py_strip c) in
                             if first_char = ''<'' \<or> first_char = ''['' then user_scan w title ls
                             else JStr (message_title c))
                      | _ \<Rightarrow> user_scan w title ls))))"

text \<open>The three sources in order, each skipped once a title is found.\<close>

definition find_title :: "string \<Rightarrow> string \<Rightarrow> world \<Rightarrow> json" where
  "find_title session_id transcript_path w =
     (let title = JStr [];
          title1 = (if transcript_path \<noteq> [] \<and> session_id \<noteq> []
                    then index_title session_id transcript_path w else title);
          title2 = (if \<not> truthy title1 \<and> transcript_path \<noteq> [] \<and> isfile w transcript_path
                    then (case read_file w transcript_path of
                            None \<Rightarrow> title1
                          | Some text \<Rightarrow> summary_scan w title1 (file_lines text))
                    else title1);
          title3 = (if \<not> truthy title2 \<and> transcript_path \<noteq> [] \<and> isfile w transcript_path
                    then (case read_file w transcript_path of
                            None \<Rightarrow> title2
                          | Some text \<Rightarrow> user_scan w title2 (file_lines text))
                    else title2)
      in title3)"

text \<open>
  \<^verbatim>\<open>extract_session_title\<close>.  Both arguments come from the JSON input.  A session id that is
  not a string fails in \<^verbatim>\<open>cache_path\<close>; on a cache miss a truthy transcript path that is not a
  string fails in \<^verbatim>\<open>os.path.dirname\<close>; a falsy one skips all three sources.
\<close>

definition extract_session_title :: "json \<Rightarrow> json \<Rightarrow> world \<Rightarrow> pyerr + (json \<times> world)" where
  "extract_session_title session_id transcript_path w =
     (if \<not> truthy session_id then Inr (JStr [], w)
      else (case session_id of
              JStr sid \<Rightarrow>
                (let cp = cache_path w ''title'' sid in
                 case read_cache cp 300 w of
                   (Some cached, w1) \<Rightarrow> Inr (JStr cached, w1)
                 | (None, w1) \<Rightarrow>
                     (if \<not> truthy transcript_path then Inr (JStr [], w1)
                      else (case transcript_path of
                              JStr tp \<Rightarrow>
                                (let title = find_title sid tp w1
                                 in Inr (title, if truthy title then write_cache cp title w1 else w1))
                            | _ \<Rightarrow> Inl TypeError)))
            | _ \<Rightarrow> Inl AttributeError))"

section \<open>Terminal key\<close>

definition build_terminal_key :: "world \<Rightarrow> string" where
  "build_terminal_key w =
     (let iterm = env_get w ''ITERM_SESSION_ID'' [];
          kitty = env_get w ''KITTY_WINDOW_ID'' [];
          wezterm = env_get w ''WEZTERM_PANE'' [];
          wt = env_get w ''WT_SESSION'' [];
          term_session = env_get w ''TERM_SESSION_ID'' []
      in if iterm \<noteq> [] then ''ITERM:'' @ iterm
         else if kitty \<noteq> [] then ''KITTY:'' @ kitty
         else if wezterm \<noteq> [] then ''WEZTERM:'' @ wezterm
         else if wt \<noteq> [] then ''WT:'' @ wt
         else if term_session \<noteq> [] then ''TERM:'' @ term_session
         else [])"

section \<open>IPC send\<close>

definition bs :: char where
  "bs = CHR 0x5C"

definition default_socket_path :: "world \<Rightarrow> string" where
  "default_socket_path w =
     (if is_windows w then [bs, bs] @ ''.'' @ [bs] @ ''pipe'' @ [bs] @ ''jacques''
      else ''/tmp/jacques.sock'')"

text \<open>
  The body of the \<^verbatim>\<open>try\<close> in \<^verbatim>\<open>send_to_server\<close>: encoding the payload, then the named pipe on
  Windows or the Unix socket elsewhere.  Each library call that can raise is a branch.
\<close>

definition send_body :: "json \<Rightarrow> world \<Rightarrow> (pyerr + bool) \<times> world" where
  "send_body payload w =
     (let socket_path = env_get w ''JACQUES_SOCKET_PATH'' (default_socket_path w) in
      case json_dumps w payload of
        None \<Rightarrow> (Inl TypeError, w)
      | Some text \<Rightarrow>
          (let data = text @ [nl] in
           if is_windows w then
             (let w1 = log_event (PipeOpen socket_path) w in
              if pipe_write w socket_path data
              then (Inr True, log_event (PipeWrite socket_path data) w1)
              else (Inl OSError, w1))
           else
             (let w1 = log_event (SocketExists socket_path) w in
              if \<not> path_exists w socket_path then (Inr False, w1)
              else
                (let w2 = log_event (SocketConnect socket_path) w1 in
                 if \<not> socket_connect w socket_path then (Inl OSError, w2)
                 else
                   (let w3 = log_event (SocketSend socket_path data) w2 in
                    if \<not> socket_sendall w socket_path data then (Inl OSError, w3)
                    else (Inr True, w3))))))"

text \<open>\<^verbatim>\<open>send_to_server\<close>: the \<^verbatim>\<open>except Exception\<close> turns every failure into \<^verbatim>\<open>False\<close>.\<close>

definition send_to_server :: "json \<Rightarrow> world \<Rightarrow> pyerr + (bool \<times> world)" where
  "send_to_server payload w =
     (case send_body payload w of
        (Inl e, w') \<Rightarrow> Inr (False, w')
      | (Inr delivered, w') \<Rightarrow> Inr (delivered, w'))"

section \<open>Main\<close>

text \<open>\<^verbatim>\<open>a or b\<close> on values.\<close>

definition py_or :: "json \<Rightarrow> json \<Rightarrow> json" where
  "py_or a b = (if truthy a then a else b)"

definition is_dict :: "json \<Rightarrow> bool" where
  "is_dict v = (case v of JObj kvs \<Rightarrow> True | _ \<Rightarrow> False)"

definition write_stdout :: "string \<Rightarrow> world \<Rightarrow> world" where
  "write_stdout text w = w\<lparr>stdout := stdout w @ text\<rparr>"

text \<open>The status line \<^verbatim>\<open>f'[{model_display}] ctx:{used_int}%{git_part} [AC:{ac_part}]'\<close>.\<close>

definition status_line :: "world \<Rightarrow> json \<Rightarrow> int \<Rightarrow> git_info \<Rightarrow> settings \<Rightarrow> string" where
  "status_line w model_display used_int git ac =
     (let git_part = (if git_branch git \<noteq> [] then '' @'' @ git_branch git else []);
          ac_part = (if enabled ac then ''ON@'' @ show_int (threshold ac) @ ''%'' else ''OFF'')
      in ''['' @ fmt w model_display @ ''] ctx:'' @ show_int used_int @ ''%'' @ git_part @
         '' [AC:'' @ ac_part @ '']'')"

text \<open>The fields \<^verbatim>\<open>main\<close> extracts from the input document.\<close>

record event_fields =
  ev_session_id :: json
  ev_used_pct :: json
  ev_remaining_pct :: json
  ev_ctx_size :: json
  ev_total_input :: json
  ev_total_output :: json
  ev_model :: json
  ev_model_display :: json
  ev_cwd :: json
  ev_project_dir :: json
  ev_transcript_path :: json

text \<open>
  The extraction block of \<^verbatim>\<open>main\<close>.  \<^verbatim>\<open>input_data\<close> and \<^verbatim>\<open>context_window\<close> are used through
  \<^verbatim>\<open>.get\<close> without a type check; \<^verbatim>\<open>model\<close> and \<^verbatim>\<open>workspace\<close> are checked with
  \<^verbatim>\<open>isinstance\<close> first.
\<close>

definition extract_fields :: "json \<Rightarrow> pyerr + event_fields" where
  "extract_fields input_data =
     bind_err (py_get input_data ''session_id'' (JStr [])) (\<lambda>session_id.
     bind_err (py_get input_data ''context_window'' (JObj [])) (\<lambda>ctx.
     bind_err (py_get ctx ''used_percentage'' (JInt 0)) (\<lambda>used_pct.
     bind_err (py_get ctx ''remaining_percentage'' (JInt 100)) (\<lambda>remaining_pct.
     bind_err (py_get ctx ''context_window_size'' (JInt 0)) (\<lambda>ctx_size.
     bind_err (py_get ctx ''total_input_tokens'' (JInt 0)) (\<lambda>total_input.
     bind_err (py_get ctx ''total_output_tokens'' (JInt 0)) (\<lambda>total_output.
     bind_err (py_get input_data ''model'' (JObj [])) (\<lambda>model_data.
     bind_err (if is_dict model_data then py_get model_data ''id'' (JStr ''unknown'')
               else Inr (JStr ''unknown'')) (\<lambda>model.
     bind_err (if is_dict model_data then py_get model_data ''display_name'' (JStr ''Unknown'')
               else Inr (JStr ''Unknown'')) (\<lambda>model_display.
     bind_err (py_get input_data ''workspace'' (JObj [])) (\<lambda>workspace.
     bind_err (if is_dict workspace then
                 bind_err (py_get workspace ''current_dir'' (JStr [])) (\<lambda>current_dir.
                   if truthy current_dir then Inr current_dir
                   else py_get input_data ''cwd'' (JStr []))
               else py_get input_data ''cwd'' (JStr [])) (\<lambda>cwd.
     bind_err (if is_dict workspace then py_get workspace ''project_dir'' (JStr [])
               else Inr (JStr [])) (\<lambda>project_dir.
     bind_err (py_get input_data ''transcript_path'' (JStr [])) (\<lambda>transcript_path.
       Inr \<lparr>ev_session_id = session_id, ev_used_pct = used_pct,
            ev_remaining_pct = remaining_pct, ev_ctx_size = ctx_size,
            ev_total_input = total_input, ev_total_output = total_output,
            ev_model = model, ev_model_display = model_display, ev_cwd = cwd,
            ev_project_dir = project_dir,
            ev_transcript_path = transcript_path\<rparr>))))))))))))))"

text \<open>The payload handed to the transport.\<close>

definition build_payload ::
  "event_fields \<Rightarrow> int \<Rightarrow> settings \<Rightarrow> string \<Rightarrow> json \<Rightarrow> git_info \<Rightarrow> json" where
  "build_payload f now ac terminal_key session_title git =
     JObj
       [(''event'', JStr ''context_update''),
        (''session_id'', ev_session_id f),
        (''used_percentage'', ev_used_pct f),
        (''remaining_percentage'', ev_remaining_pct f),
        (''context_window_size'', ev_ctx_size f),
        (''total_input_tokens'', ev_total_input f),
        (''total_output_tokens'', ev_total_output f),
        (''model'', ev_model f),
        (''model_display_name'', ev_model_display f),
        (''cwd'', ev_cwd f),
        (''project_dir'', ev_project_dir f),
        (''timestamp'', JInt now),
        (''autocompact'', JObj
           [(''enabled'', JBool (enabled ac)),
            (''threshold'', JInt (threshold ac)),
            (''bug_threshold'', (case bug_threshold ac of None \<Rightarrow> JNull | Some b \<Rightarrow> JInt b))]),
        (''terminal_key'', JStr terminal_key),
        (''session_title'', session_title),
        (''transcript_path'', ev_transcript_path f),
        (''git_branch'', JStr (git_branch git)),
        (''git_worktree'', JStr (git_worktree git)),
        (''git_repo_root'', JStr (git_repo_root git))]"

text \<open>
  The part of \<^verbatim>\<open>main\<close> after the session id check: terminal key, payload, send, status line.
\<close>

definition send_and_print ::
  "event_fields \<Rightarrow> int \<Rightarrow> git_info \<Rightarrow> json \<Rightarrow> settings \<Rightarrow> world \<Rightarrow> pyerr + world" where
  "send_and_print f now git session_title ac w =
     (let terminal_key = build_terminal_key w;
          payload = build_payload f now ac terminal_key session_title git
      in bind_err (send_to_server payload w) (\<lambda>(delivered, w').
         bind_err (if truthy (ev_used_pct f) then py_int (ev_used_pct f) else Inr 0) (\<lambda>used_int.
           Inr (write_stdout (status_line w' (ev_model_display f) used_int git ac) w'))))"

text \<open>
  The part of \<^verbatim>\<open>main\<close> after the extraction: the three resolvers run in this order, and only
  then is the session id tested.
\<close>

definition resolve_and_report :: "event_fields \<Rightarrow> int \<Rightarrow> world \<Rightarrow> pyerr + world" where
  "resolve_and_report f now w =
     (let git_dir = py_or (ev_project_dir f) (ev_cwd f) in
      bind_err (if truthy git_dir then detect_git_info git_dir w
                else Inr (empty_git, w)) (\<lambda>(git, w1).
      bind_err (extract_session_title (ev_session_id f) (ev_transcript_path f) w1)
        (\<lambda>(session_title, w2).
      bind_err (read_autocompact_settings w2) (\<lambda>(ac, w3).
        if \<not> truthy (ev_session_id f) then Inr (write_stdout ''ctx:?%'' w3)
        else send_and_print f now git session_title ac w3))))"

text \<open>
  \<^verbatim>\<open>main\<close>.  The argument is the result of \<^verbatim>\<open>json.load(sys.stdin)\<close>, absent when it raises.
  An exception that leaves \<^verbatim>\<open>main\<close> ends the process before anything is printed.
\<close>

definition main :: "json option \<Rightarrow> world \<Rightarrow> pyerr + world" where
  "main stdin_json w =
     (if environ w ''JACQUES_SUBPROCESS'' = Some ''1'' then Inr w
      else if environ w ''JACQUES_SKIP'' = Some ''1'' then Inr w
      else if isfile w (path_join w (path_join w (home w) ''.jacques'') ''skip'') then Inr w
      else (case stdin_json of
              None \<Rightarrow> Inr w
            | Some input_data \<Rightarrow>
                if \<not> truthy input_data then Inr w
                else
                  (let now = trunc (clock w * 1000) in
                   bind_err (extract_fields input_data) (\<lambda>f. resolve_and_report f now w))))"

section \<open>A concrete host\<close>

text \<open>
  A POSIX host with an empty file system, no environment variables, no helper script, no git
  and no socket; paths are joined with a slash, every recorded call takes a millisecond and
  the text encoding stores every character.
  The instances below start from it.
\<close>

definition demo_dirname :: "string \<Rightarrow> string" where
  "demo_dirname p = rev (drop 1 (dropWhile (\<lambda>c. c \<noteq> CHR ''/'') (rev p)))"

definition demo_basename :: "string \<Rightarrow> string" where
  "demo_basename p = rev (takeWhile (\<lambda>c. c \<noteq> CHR ''/'') (rev p))"

definition demo_world :: world where
  "demo_world =
     \<lparr>files = (\<lambda>p. None), clock = 1000, trace = [],
      readable = (\<lambda>p. True), writable = (\<lambda>p. True),
      is_dir = (\<lambda>p. False), path_exists = (\<lambda>p. False), is_executable = (\<lambda>p. False),
      environ = (\<lambda>n. None), is_windows = False,
      tmpdir = ''/tmp'', script_dir = ''/hooks'', home = ''/home/u'',
      path_join = (\<lambda>a b. a @ ''/'' @ b),
      path_dirname = demo_dirname, path_basename = demo_basename,
      path_realpath = (\<lambda>p. p),
      run_helper = (\<lambda>s d. None), run_git = (\<lambda>d. None),
      json_loads = (\<lambda>s. JSONDecodeError), json_dumps = (\<lambda>v. Some ''{}''),
      py_str = (\<lambda>v. ''?''),
      fd_is_dir = (\<lambda>n. False), stdout = [],
      socket_connect = (\<lambda>p. False), socket_sendall = (\<lambda>p d. False),
      pipe_write = (\<lambda>p d. False),
      latency = (\<lambda>e. 1 / 1000), encodable = (\<lambda>c. True)\<rparr>"

text \<open>The same host with one repository at \<^verbatim>\<open>/repo\<close>, on branch \<^verbatim>\<open>main\<close>.\<close>

definition git_world :: world where
  "git_world = demo_world
     \<lparr>is_dir := (\<lambda>p. p = ''/repo''),
      run_git := (\<lambda>d. if d = ''/repo''
                       then Some \<lparr>returncode = 0, proc_stdout = ''main'' @ [nl] @ ''.git'' @ [nl]\<rparr>
                       else None)\<rparr>"

text \<open>The same host with a fresh settings cache whose third field is no integer.\<close>

definition bad_cache_world :: world where
  "bad_cache_world = demo_world
     \<lparr>files := (\<lambda>p. if p = ''/tmp/jacques-settings.cache''
                     then Some (''true|95|abc'', 900) else None)\<rparr>"

text \<open>The same host with the threshold override variable set to a text that is no integer.\<close>

definition bad_env_world :: world where
  "bad_env_world = demo_world
     \<lparr>environ := (\<lambda>n. if n = ''CLAUDE_AUTOCOMPACT_PCT_OVERRIDE'' then Some ''abc'' else None)\<rparr>"

section \<open>Reading a transcript as a list of records\<close>

text \<open>
  The two scans are loops with an accumulator and early exits.  The definitions below say
  what they look for, line by line, so that the loops can be compared with it.  A scan for
  records of one type stops at a line that carries the marker and either parses to something
  that is no JSON object or makes \<^verbatim>\<open>json.loads\<close> raise anything but \<^verbatim>\<open>JSONDecodeError\<close>; the
  lines before the first such line are the ones the scan gets to see.
\<close>

definition scan_stops :: "world \<Rightarrow> string \<Rightarrow> string \<Rightarrow> bool" where
  "scan_stops w name l =
     (has_type name (py_strip l) \<and>
      (case json_loads w (py_strip l) of
         Loaded v \<Rightarrow> \<not> is_dict v
       | JSONDecodeError \<Rightarrow> False
       | LoadsRaised \<Rightarrow> True))"

definition scanned :: "world \<Rightarrow> string \<Rightarrow> string list \<Rightarrow> string list" where
  "scanned w name lines = takeWhile (\<lambda>l. \<not> scan_stops w name l) lines"

text \<open>The summary of a line: present when the line is a summary record with a non-empty summary.\<close>

definition line_summary :: "world \<Rightarrow> string \<Rightarrow> json option" where
  "line_summary w l =
     (if has_type ''summary'' (py_strip l) then
        (case json_loads w (py_strip l) of
           Loaded (JObj kvs) \<Rightarrow>
             if truthy (dict_get kvs ''summary'' (JStr []))
             then Some (dict_get kvs ''summary'' (JStr [])) else None
         | _ \<Rightarrow> None)
      else None)"

text \<open>All non-empty summaries of a list of lines, in file order.\<close>

definition summaries :: "world \<Rightarrow> string list \<Rightarrow> json list" where
  "summaries w lines = List.map_filter (line_summary w) lines"

text \<open>
  The user message of a line: present when the line is a user record whose message content is
  a non-empty plain string that, once trimmed, does not begin with \<^verbatim>\<open><\<close> or \<^verbatim>\<open>[\<close>.
\<close>

definition line_user_message :: "world \<Rightarrow> string \<Rightarrow> string option" where
  "line_user_message w l =
     (if has_type ''user'' (py_strip l) then
        (case json_loads w (py_strip l) of
           Loaded (JObj kvs) \<Rightarrow>
             (case dict_get kvs ''message'' (JObj []) of
                JObj m \<Rightarrow>
                  (case dict_get m ''content'' (JStr []) of
                     JStr c \<Rightarrow>
                       if c \<noteq> [] \<and> take 1 (py_strip c) \<noteq> ''<'' \<and> take 1 (py_strip c) \<noteq> ''[''
                       then Some c else None
                   | _ \<Rightarrow> None)
              | _ \<Rightarrow> None)
         | _ \<Rightarrow> None)
      else None)"

definition first_user_message :: "world \<Rightarrow> string list \<Rightarrow> string option" where
  "first_user_message w lines =
     (case List.map_filter (line_user_message w) lines of [] \<Rightarrow> None | c # cs \<Rightarrow> Some c)"

section \<open>A concrete transcript\<close>

text \<open>
  Session \<^verbatim>\<open>s1\<close> with its transcript at \<^verbatim>\<open>/t/s1.jsonl\<close>.  The long user message has 72
  characters, 68 once trimmed, and a line break inside; the short one is padded and has a line
  break too.  Inside the JSON text a line break is the two characters backslash and \<^verbatim>\<open>n\<close>.
  \<open>demo_loads\<close> is \<^verbatim>\<open>json.loads\<close> on exactly the texts used here.
\<close>

definition quoted :: "string \<Rightarrow> string" where
  "quoted s = [dq] @ s @ [dq]"

definition summary_record_text :: "string \<Rightarrow> string" where
  "summary_record_text s =
     ''{'' @ quoted ''type'' @ '':'' @ quoted ''summary'' @ '','' @
     quoted ''summary'' @ '':'' @ quoted s @ ''}''"

definition user_record_text :: "string \<Rightarrow> string" where
  "user_record_text c =
     ''{'' @ quoted ''type'' @ '':'' @ quoted ''user'' @ '','' @
     quoted ''message'' @ '':{'' @ quoted ''content'' @ '':'' @ quoted c @ ''}}''"

definition index_text :: string where
  "index_text =
     ''{'' @ quoted ''entries'' @ '':[{'' @
       quoted ''sessionId'' @ '':'' @ quoted ''s0'' @ '','' @
       quoted ''summary'' @ '':'' @ quoted ''other'' @ ''},{'' @
       quoted ''sessionId'' @ '':'' @ quoted ''s1'' @ '','' @
       quoted ''summary'' @ '':'' @ quoted ''A'' @ ''}]}''"

definition long_message :: string where
  "long_message =
     ''  Please refactor the parser'' @ [nl] @ ''so that nested lists are handled properly  ''"

definition long_message_escaped :: string where
  "long_message_escaped =
     ''  Please refactor the parser'' @ [bs] @ ''nso that nested lists are handled properly  ''"

definition padded_message :: string where
  "padded_message = ''  fix'' @ [nl] @ ''the build  ''"

definition padded_message_escaped :: string where
  "padded_message_escaped = ''  fix'' @ [bs] @ ''nthe build  ''"

text \<open>A line that carries the summary marker but is a JSON array, not an object.\<close>

definition array_line_text :: string where
  "array_line_text = ''['' @ summary_record_text ''x'' @ '']''"

definition demo_loads :: "string \<Rightarrow> loads_result" where
  "demo_loads s =
     (if s = index_text then
        Loaded (JObj [(''entries'', JArr
          [JObj [(''sessionId'', JStr ''s0''), (''summary'', JStr ''other'')],
           JObj [(''sessionId'', JStr ''s1''), (''summary'', JStr ''A'')]])])
      else if s = summary_record_text ''first'' then
        Loaded (JObj [(''type'', JStr ''summary''), (''summary'', JStr ''first'')])
      else if s = summary_record_text ''B'' then
        Loaded (JObj [(''type'', JStr ''summary''), (''summary'', JStr ''B'')])
      else if s = array_line_text then
        Loaded (JArr [JObj [(''type'', JStr ''summary''), (''summary'', JStr ''x'')]])
      else if s = user_record_text long_message_escaped then
        Loaded (JObj [(''type'', JStr ''user''),
                      (''message'', JObj [(''content'', JStr long_message)])])
      else if s = user_record_text padded_message_escaped then
        Loaded (JObj [(''type'', JStr ''user''),
                      (''message'', JObj [(''content'', JStr padded_message)])])
      else JSONDecodeError)"







text \<open>A transcript with the short, padded user message only.\<close>

definition padded_world :: world where
  "padded_world = demo_world
     \<lparr>files := (\<lambda>p. if p = ''/t/s1.jsonl''
                     then Some (user_record_text padded_message_escaped @ [nl], 500) else None),
      json_loads := demo_loads\<rparr>"


section \<open>What a run leaves behind\<close>

text \<open>The trace entries made by the transport.\<close>

fun is_transport :: "io_event \<Rightarrow> bool" where
  "is_transport (SocketExists p) = True"
| "is_transport (SocketConnect p) = True"
| "is_transport (SocketSend p d) = True"
| "is_transport (PipeOpen p) = True"
| "is_transport (PipeWrite p d) = True"
| "is_transport _ = False"

definition transport_events :: "io_event list \<Rightarrow> io_event list" where
  "transport_events es = filter is_transport es"

text \<open>
  A step that touches nothing but the files, the trace and the clock, and adds no transport
  entry to the trace: what a resolver may do.
\<close>

definition cache_step :: "world \<Rightarrow> world \<Rightarrow> bool" where
  "cache_step w w' =
     (w'\<lparr>files := files w, trace := trace w, clock := clock w\<rparr> = w
      \<and> transport_events (trace w') = transport_events (trace w))"

section \<open>Concrete input documents\<close>

text \<open>An input without a session id, from inside the repository of \<^const>\<open>git_world\<close>.\<close>

definition no_session_event :: json where
  "no_session_event = JObj [(''cwd'', JStr ''/repo'')]"




section \<open>Basic facts\<close>

lemma files_log_event [simp]: "files (log_event e w) = files w"
  by (simp add: log_event_def)

lemma clock_log_event [simp]: "clock (log_event e w) = clock w + latency w e"
  by (simp add: log_event_def)

lemma readable_log_event [simp]: "readable (log_event e w) = readable w"
  by (simp add: log_event_def)

lemma writable_log_event [simp]: "writable (log_event e w) = writable w"
  by (simp add: log_event_def)

lemma log_event_fields [simp]:
  "is_dir (log_event e w) = is_dir w"
  "path_exists (log_event e w) = path_exists w"
  "is_executable (log_event e w) = is_executable w"
  "environ (log_event e w) = environ w"
  "is_windows (log_event e w) = is_windows w"
  "tmpdir (log_event e w) = tmpdir w"
  "script_dir (log_event e w) = script_dir w"
  "home (log_event e w) = home w"
  "path_join (log_event e w) = path_join w"
  "path_dirname (log_event e w) = path_dirname w"
  "path_basename (log_event e w) = path_basename w"
  "path_realpath (log_event e w) = path_realpath w"
  "run_helper (log_event e w) = run_helper w"
  "run_git (log_event e w) = run_git w"
  "json_loads (log_event e w) = json_loads w"
  "json_dumps (log_event e w) = json_dumps w"
  "py_str (log_event e w) = py_str w"
  "fd_is_dir (log_event e w) = fd_is_dir w"
  "stdout (log_event e w) = stdout w"
  "socket_connect (log_event e w) = socket_connect w"
  "socket_sendall (log_event e w) = socket_sendall w"
  "pipe_write (log_event e w) = pipe_write w"
  "latency (log_event e w) = latency w"
  "encodable (log_event e w) = encodable w"
  by (simp_all add: log_event_def)

lemma trace_log_event [simp]: "trace (log_event e w) = trace w @ [e]"
  by (simp add: log_event_def)

lemma isfile_log_event [simp]: "isfile (log_event e w) p = isfile w p"
  by (simp add: isfile_def)

lemma read_file_log_event [simp]: "read_file (log_event e w) p = read_file w p"
  by (simp add: read_file_def split: option.splits prod.splits)

lemma env_get_log_event [simp]: "env_get (log_event e w) n d = env_get w n d"
  by (simp add: env_get_def)

lemma cache_path_log_event [simp]: "cache_path (log_event e w) ns k = cache_path w ns k"
  by (simp add: cache_path_def)

lemma to_linesep_log_event [simp]: "to_linesep (log_event e w) s = to_linesep w s"
  by (simp add: to_linesep_def)

section \<open>Text mode\<close>





section \<open>The cache store\<close>




section \<open>The git resolver\<close>

lemma read_cache_snd: "snd (read_cache p a w) = log_event (CacheRead p) w"
  by (simp add: read_cache_def Let_def split: option.splits prod.splits)

lemma read_cache_pair: "read_cache p a w = (fst (read_cache p a w), log_event (CacheRead p) w)"
  by (metis prod.collapse read_cache_snd)








section \<open>The transport\<close>

text \<open>
  C5.  For every payload \<^const>\<open>send_to_server\<close> returns a boolean and raises nothing.  On a
  host that is not Windows, when the socket path does not exist the result is \<open>False\<close> and the
  only thing the call may have done is the existence test: no connection attempt is recorded.
\<close>

theorem send_to_server_never_raises:
  "(\<exists>delivered w'. send_to_server payload w = Inr (delivered, w'))
   \<and> (\<not> is_windows w
        \<and> \<not> path_exists w (env_get w ''JACQUES_SOCKET_PATH'' (default_socket_path w)) \<longrightarrow>
        (\<exists>w'. send_to_server payload w = Inr (False, w')
           \<and> (trace w' = trace w
               \<or> trace w' = trace w @
                    [SocketExists (env_get w ''JACQUES_SOCKET_PATH'' (default_socket_path w))])))"
proof (intro conjI impI)
  show "\<exists>delivered w'. send_to_server payload w = Inr (delivered, w')"
  proof -
    obtain r w' where b: "send_body payload w = (r, w')" by (cases "send_body payload w")
    then show ?thesis by (cases r) (auto simp: send_to_server_def)
  qed
next
  assume a: "\<not> is_windows w
     \<and> \<not> path_exists w (env_get w ''JACQUES_SOCKET_PATH'' (default_socket_path w))"
  show "\<exists>w'. send_to_server payload w = Inr (False, w')
           \<and> (trace w' = trace w
               \<or> trace w' = trace w @
                    [SocketExists (env_get w ''JACQUES_SOCKET_PATH'' (default_socket_path w))])"
  proof (cases "json_dumps w payload")
    case None
    then show ?thesis by (simp add: send_to_server_def send_body_def)
  next
    case (Some t)
    then show ?thesis using a by (simp add: send_to_server_def send_body_def Let_def)
  qed
qed

theorem send_to_server_never_raises_witness:
  "\<not> is_windows demo_world
   \<and> \<not> path_exists demo_world
         (env_get demo_world ''JACQUES_SOCKET_PATH'' (default_socket_path demo_world))
   \<and> (\<exists>w'. send_to_server (JObj [(''event'', JStr ''context_update'')]) demo_world
               = Inr (False, w')
           \<and> (trace w' = trace demo_world
               \<or> trace w' = trace demo_world @
                    [SocketExists (env_get demo_world ''JACQUES_SOCKET_PATH''
                                     (default_socket_path demo_world))]))"
proof -
  have h: "\<not> is_windows demo_world
     \<and> \<not> path_exists demo_world
           (env_get demo_world ''JACQUES_SOCKET_PATH'' (default_socket_path demo_world))"
    by (simp add: demo_world_def)
  show ?thesis
    using h send_to_server_never_raises
              [of "JObj [(''event'', JStr ''context_update'')]" demo_world]
    by blast
qed

section \<open>The settings resolver\<close>

lemma py_int_str_95 [simp]: "py_int_str ''95'' = Inr 95"
  by code_simp

lemma py_int_str_abc [simp]: "py_int_str ''abc'' = Inl ValueError"
  by code_simp

text \<open>
  On a cache miss with the override variable unset and no readable configuration file, the
  resolver yields the defaults.
\<close>

lemma settings_default_on_miss:
  assumes "environ w ''CLAUDE_AUTOCOMPACT_PCT_OVERRIDE'' = None"
    and "fst (read_cache (path_join w (tmpdir w) ''jacques-settings.cache'') 300 w) = None"
    and "\<not> isfile w (path_join w
            (env_get w ''CLAUDE_CONFIG_DIR'' (path_join w (home w) ''.claude'')) ''settings.json'')"
  shows "\<exists>w'. read_autocompact_settings w =
           Inr (\<lparr>enabled = True, threshold = 95, bug_threshold = None\<rparr>, w')"
proof -
  let ?cp = "path_join w (tmpdir w) ''jacques-settings.cache''"
  let ?st = "\<lparr>enabled = True, threshold = 95, bug_threshold = None\<rparr>"
  have rd: "read_cache ?cp 300 w = (None, log_event (CacheRead ?cp) w)"
    using assms(2) read_cache_pair [of ?cp 300 w] by simp
  have ov: "env_get w ''CLAUDE_AUTOCOMPACT_PCT_OVERRIDE'' ''95'' = ''95''"
    using assms(1) by (simp add: env_get_def)
  have cfg: "settings_from_config ?st (log_event (CacheRead ?cp) w) = ?st"
    using assms(3) by (simp add: settings_from_config_def Let_def)
  show ?thesis
    using rd ov cfg
    by (simp add: read_autocompact_settings_def bind_err_def Let_def settings_miss_def)
qed

text \<open>
  On a cache miss with the override variable unset and a configuration file that holds
  \<^verbatim>\<open>"autoCompact": false\<close>, the resolver yields \<open>enabled = False\<close> and the bug threshold 78.
\<close>

lemma settings_autocompact_false_on_miss:
  assumes "environ w ''CLAUDE_AUTOCOMPACT_PCT_OVERRIDE'' = None"
    and "fst (read_cache (path_join w (tmpdir w) ''jacques-settings.cache'') 300 w) = None"
    and "read_file w (path_join w
            (env_get w ''CLAUDE_CONFIG_DIR'' (path_join w (home w) ''.claude'')) ''settings.json'')
          = Some txt"
    and "json_loads w txt = Loaded (JObj kvs)"
    and "map_of kvs ''autoCompact'' = Some (JBool False)"
  shows "\<exists>w'. read_autocompact_settings w =
           Inr (\<lparr>enabled = False, threshold = 95, bug_threshold = Some 78\<rparr>, w')"
proof -
  let ?cp = "path_join w (tmpdir w) ''jacques-settings.cache''"
  let ?sp = "path_join w
            (env_get w ''CLAUDE_CONFIG_DIR'' (path_join w (home w) ''.claude'')) ''settings.json''"
  let ?st = "\<lparr>enabled = True, threshold = 95, bug_threshold = None\<rparr>"
  have rd: "read_cache ?cp 300 w = (None, log_event (CacheRead ?cp) w)"
    using assms(2) read_cache_pair [of ?cp 300 w] by simp
  have ov: "env_get w ''CLAUDE_AUTOCOMPACT_PCT_OVERRIDE'' ''95'' = ''95''"
    using assms(1) by (simp add: env_get_def)
  have f: "isfile w ?sp"
    using assms(3) by (auto simp: read_file_def isfile_def split: option.splits)
  have cfg: "settings_from_config ?st (log_event (CacheRead ?cp) w)
             = \<lparr>enabled = False, threshold = 95, bug_threshold = Some 78\<rparr>"
    using assms(3,4,5) f
    by (simp add: settings_from_config_def Let_def dict_get_def)
  show ?thesis
    using rd ov cfg
    by (simp add: read_autocompact_settings_def bind_err_def Let_def settings_miss_def)
qed

text \<open>
  C2.  A fresh settings cache holding \<^verbatim>\<open>true|95|abc\<close> has three pipe-delimited fields.  The
  third field is parsed outside any \<^verbatim>\<open>try\<close>, so the resolver raises \<^verbatim>\<open>ValueError\<close>, and the
  exception leaves \<^const>\<open>main\<close>: nothing is sent and nothing is printed.
\<close>

theorem settings_cache_third_field_raises:
  "py_split CHR ''|'' ''true|95|abc'' = [''true'', ''95'', ''abc'']
   \<and> read_autocompact_settings bad_cache_world = Inl ValueError
   \<and> main (Some (JObj [(''session_id'', JStr ''s1'')])) bad_cache_world = Inl ValueError"
proof -
  let ?r = "read_autocompact_settings bad_cache_world"
  let ?m = "main (Some (JObj [(''session_id'', JStr ''s1'')])) bad_cache_world"
  have s: "py_split CHR ''|'' ''true|95|abc'' = [''true'', ''95'', ''abc'']"
    by code_simp
  have r: "isl ?r \<and> projl ?r = ValueError" by code_simp
  have m: "isl ?m \<and> projl ?m = ValueError" by code_simp
  have "?r = Inl ValueError" using r by (cases ?r) simp_all
  moreover have "?m = Inl ValueError" using m by (cases ?m) simp_all
  ultimately show ?thesis using s by simp
qed

text \<open>
  C6.  With the override variable set to \<^verbatim>\<open>abc\<close>, an empty cache and no configuration file,
  the resolver does not fall back to 95: the bare \<^verbatim>\<open>int(...)\<close> on its first line raises
  \<^verbatim>\<open>ValueError\<close>.
\<close>

theorem settings_env_override_raises:
  "environ bad_env_world ''CLAUDE_AUTOCOMPACT_PCT_OVERRIDE'' = Some ''abc''
   \<and> read_autocompact_settings bad_env_world = Inl ValueError"
proof -
  let ?r = "read_autocompact_settings bad_env_world"
  have e: "environ bad_env_world ''CLAUDE_AUTOCOMPACT_PCT_OVERRIDE'' = Some ''abc''"
    by code_simp
  have r: "isl ?r \<and> projl ?r = ValueError" by code_simp
  have "?r = Inl ValueError" using r by (cases ?r) simp_all
  then show ?thesis using e by simp
qed

section \<open>The title resolver\<close>

lemma summary_scan_log_event [simp]:
  "summary_scan (log_event e w) t ls = summary_scan w t ls"
  by (induction ls arbitrary: t)
     (simp_all add: Let_def split: loads_result.splits sum.splits json.splits)

lemma user_scan_log_event [simp]:
  "user_scan (log_event e w) t ls = user_scan w t ls"
  by (induction ls arbitrary: t)
     (simp_all add: Let_def split: loads_result.splits sum.splits json.splits)

lemma index_title_log_event [simp]:
  "index_title sid tp (log_event e w) = index_title sid tp w"
  by (simp add: index_title_def Let_def split: option.splits)

lemma find_title_log_event [simp]:
  "find_title sid tp (log_event e w) = find_title sid tp w"
  by (simp add: find_title_def Let_def cong: option.case_cong if_cong)

lemma extract_session_title_miss:
  assumes "sid \<noteq> []" and "tp \<noteq> []"
    and "fst (read_cache (cache_path w ''title'' sid) 300 w) = None"
  shows "extract_session_title (JStr sid) (JStr tp) w =
           Inr (find_title sid tp w,
                if truthy (find_title sid tp w)
                then write_cache (cache_path w ''title'' sid) (find_title sid tp w)
                       (log_event (CacheRead (cache_path w ''title'' sid)) w)
                else log_event (CacheRead (cache_path w ''title'' sid)) w)"
proof -
  let ?cp = "cache_path w ''title'' sid"
  have rd: "read_cache ?cp 300 w = (None, log_event (CacheRead ?cp) w)"
    using assms(3) read_cache_pair [of ?cp 300 w] by simp
  show ?thesis
    using assms(1,2) rd by (simp add: extract_session_title_def Let_def)
qed

lemma scanned_Cons:
  "scanned w name (l # ls) = (if scan_stops w name l then [] else l # scanned w name ls)"
  by (simp add: scanned_def)

lemma summaries_Nil [simp]: "summaries w [] = []"
  by (simp add: summaries_def)

lemma summaries_Cons:
  "summaries w (l # ls) =
     (case line_summary w l of None \<Rightarrow> summaries w ls | Some s \<Rightarrow> s # summaries w ls)"
  by (simp add: summaries_def split: option.splits)

text \<open>The summary scan keeps the last non-empty summary among the lines it gets to see.\<close>

lemma summary_scan_scanned:
  "summary_scan w t ls =
     (if summaries w (scanned w ''summary'' ls) = [] then t
      else last (summaries w (scanned w ''summary'' ls)))"
proof (induction ls arbitrary: t)
  case Nil
  then show ?case by (simp add: scanned_def)
next
  case (Cons l ls)
  show ?case
  proof (cases "has_type ''summary'' (py_strip l)")
    case False
    then show ?thesis
      using Cons.IH by (simp add: scanned_Cons scan_stops_def summaries_Cons line_summary_def)
  next
    case True
    show ?thesis
    proof (cases "json_loads w (py_strip l)")
      case JSONDecodeError
      then show ?thesis
        using True Cons.IH
        by (simp add: scanned_Cons scan_stops_def summaries_Cons line_summary_def)
    next
      case LoadsRaised
      then show ?thesis
        using True by (simp add: scanned_Cons scan_stops_def)
    next
      case (Loaded v)
      show ?thesis
      proof (cases "is_dict v")
        case False
        then have "py_get v ''summary'' (JStr []) = Inl AttributeError"
          by (cases v) (simp_all add: is_dict_def)
        then show ?thesis
          using True Loaded False by (simp add: scanned_Cons scan_stops_def)
      next
        case d: True
        then obtain kvs where v: "v = JObj kvs" by (cases v) (simp_all add: is_dict_def)
        show ?thesis
          using True Loaded v Cons.IH
          by (simp add: scanned_Cons scan_stops_def summaries_Cons line_summary_def is_dict_def)
      qed
    qed
  qed
qed

lemma first_user_message_Nil [simp]: "first_user_message w [] = None"
  by (simp add: first_user_message_def)

lemma first_user_message_Cons:
  "first_user_message w (l # ls) =
     (case line_user_message w l of None \<Rightarrow> first_user_message w ls | Some c \<Rightarrow> Some c)"
  by (simp add: first_user_message_def split: option.splits)

text \<open>The user scan returns the title of the first user message among the lines it gets to see.\<close>

lemma user_scan_scanned:
  "user_scan w t ls =
     (case first_user_message w (scanned w ''user'' ls) of
        None \<Rightarrow> t
      | Some c \<Rightarrow> JStr (message_title c))"
proof (induction ls arbitrary: t)
  case Nil
  then show ?case by (simp add: scanned_def)
next
  case (Cons l ls)
  show ?case
  proof (cases "has_type ''user'' (py_strip l)")
    case False
    then show ?thesis
      using Cons.IH
      by (simp add: scanned_Cons scan_stops_def first_user_message_Cons line_user_message_def)
  next
    case True
    show ?thesis
    proof (cases "json_loads w (py_strip l)")
      case JSONDecodeError
      then show ?thesis
        using True Cons.IH
        by (simp add: scanned_Cons scan_stops_def first_user_message_Cons line_user_message_def)
    next
      case LoadsRaised
      then show ?thesis
        using True by (simp add: scanned_Cons scan_stops_def)
    next
      case (Loaded v)
      show ?thesis
      proof (cases "is_dict v")
        case False
        then have "py_get v ''message'' (JObj []) = Inl AttributeError"
          by (cases v) (simp_all add: is_dict_def)
        then show ?thesis
          using True Loaded False by (simp add: scanned_Cons scan_stops_def)
      next
        case d: True
        then obtain kvs where v: "v = JObj kvs" by (cases v) (simp_all add: is_dict_def)
        show ?thesis
          using True Loaded v Cons.IH
          by (simp add: scanned_Cons scan_stops_def first_user_message_Cons
                line_user_message_def is_dict_def Let_def split: json.splits)
      qed
    qed
  qed
qed


lemma read_file_isfile: "read_file w p = Some doc \<Longrightarrow> isfile w p"
  by (auto simp: read_file_def isfile_def split: option.splits)





lemma find_title_user_message:
  assumes "sid \<noteq> []" and "tp \<noteq> []" and "\<not> truthy (index_title sid tp w)"
    and "read_file w tp = Some doc"
    and "summaries w (scanned w ''summary'' (file_lines doc)) = []"
    and "first_user_message w (scanned w ''user'' (file_lines doc)) = Some c"
  shows "find_title sid tp w = JStr (message_title c)"
proof -
  have f: "isfile w tp" using assms(4) by (rule read_file_isfile)
  have s: "summary_scan w (index_title sid tp w) (file_lines doc) = index_title sid tp w"
    using summary_scan_scanned [of w _ "file_lines doc"] assms(5) by simp
  have u: "user_scan w (index_title sid tp w) (file_lines doc) = JStr (message_title c)"
    using user_scan_scanned [of w _ "file_lines doc"] assms(6) by simp
  show ?thesis
    using assms(1,2,3,4) f s u by (simp add: find_title_def Let_def)
qed

lemma extract_session_title_found:
  assumes "sid \<noteq> []" and "tp \<noteq> []"
    and "fst (read_cache (cache_path w ''title'' sid) 300 w) = None"
    and "find_title sid tp w = v"
  shows "\<exists>w'. extract_session_title (JStr sid) (JStr tp) w = Inr (v, w')"
  using extract_session_title_miss [OF assms(1,2,3)] assms(4) by simp

lemma message_title_explicit:
  "message_title c =
     take 50 (map (\<lambda>ch. if ch = nl then CHR '' '' else ch) (py_strip c)) @ ''...''"
  by (simp add: message_title_def replace_char_def)




text \<open>
  C10.  The third source returns, for the first user message \<open>c\<close> among the lines it gets to
  see, the first 50 characters of the trimmed \<open>c\<close> with every line feed turned into a space,
  followed by three dots; without such a message it leaves the title as it was.  When it is
  the third source that decides (no index title, no summary, a first user message \<open>m\<close>), that is
  the title the resolver returns; and for a message of at most 50 characters after trimming
  the title is the whole collapsed message followed by the three dots.
\<close>

theorem user_message_title_always_ellipsis:
  "user_scan w t ls =
     (case first_user_message w (scanned w ''user'' ls) of
        None \<Rightarrow> t
      | Some c \<Rightarrow>
          JStr (take 50 (map (\<lambda>ch. if ch = nl then CHR '' '' else ch) (py_strip c)) @ ''...''))
   \<and> (sid \<noteq> [] \<and> tp \<noteq> []
        \<and> fst (read_cache (cache_path w ''title'' sid) 300 w) = None
        \<and> \<not> truthy (index_title sid tp w)
        \<and> read_file w tp = Some doc
        \<and> summaries w (scanned w ''summary'' (file_lines doc)) = []
        \<and> first_user_message w (scanned w ''user'' (file_lines doc)) = Some m
        \<longrightarrow> (\<exists>w'. extract_session_title (JStr sid) (JStr tp) w =
                    Inr (JStr (take 50 (map (\<lambda>ch. if ch = nl then CHR '' '' else ch)
                                          (py_strip m)) @ ''...''), w'))
            \<and> (length (py_strip m) \<le> 50 \<longrightarrow>
                  (\<exists>w'. extract_session_title (JStr sid) (JStr tp) w =
                     Inr (JStr (map (\<lambda>ch. if ch = nl then CHR '' '' else ch) (py_strip m)
                                @ ''...''), w'))))"
proof (intro conjI impI)
  show "user_scan w t ls =
     (case first_user_message w (scanned w ''user'' ls) of
        None \<Rightarrow> t
      | Some c \<Rightarrow>
          JStr (take 50 (map (\<lambda>ch. if ch = nl then CHR '' '' else ch) (py_strip c)) @ ''...''))"
    using user_scan_scanned [of w t ls]
    by (simp add: message_title_explicit split: option.splits)
next
  assume h: "sid \<noteq> [] \<and> tp \<noteq> []
        \<and> fst (read_cache (cache_path w ''title'' sid) 300 w) = None
        \<and> \<not> truthy (index_title sid tp w)
        \<and> read_file w tp = Some doc
        \<and> summaries w (scanned w ''summary'' (file_lines doc)) = []
        \<and> first_user_message w (scanned w ''user'' (file_lines doc)) = Some m"
  then have "find_title sid tp w = JStr (message_title m)"
    using find_title_user_message [of sid tp w doc m] by blast
  then have r: "\<exists>w'. extract_session_title (JStr sid) (JStr tp) w =
                    Inr (JStr (message_title m), w')"
    using extract_session_title_found [of sid tp w] h by blast
  then show "\<exists>w'. extract_session_title (JStr sid) (JStr tp) w =
                    Inr (JStr (take 50 (map (\<lambda>ch. if ch = nl then CHR '' '' else ch)
                                          (py_strip m)) @ ''...''), w')"
    by (simp add: message_title_explicit)
  assume "length (py_strip m) \<le> 50"
  then have "take 50 (map (\<lambda>ch. if ch = nl then CHR '' '' else ch) (py_strip m))
             = map (\<lambda>ch. if ch = nl then CHR '' '' else ch) (py_strip m)"
    by simp
  with r show "\<exists>w'. extract_session_title (JStr sid) (JStr tp) w =
                     Inr (JStr (map (\<lambda>ch. if ch = nl then CHR '' '' else ch) (py_strip m)
                                @ ''...''), w')"
    by (simp add: message_title_explicit)
qed

theorem user_message_title_always_ellipsis_witness:
  "padded_message = ''  fix'' @ [nl] @ ''the build  ''
   \<and> length (py_strip padded_message) \<le> 50
   \<and> first_user_message padded_world
        (scanned padded_world ''user''
           (file_lines (user_record_text padded_message_escaped @ [nl])))
       = Some padded_message
   \<and> (\<exists>w'. extract_session_title (JStr ''s1'') (JStr ''/t/s1.jsonl'') padded_world =
              Inr (JStr ''fix the build...'', w'))"
proof -
  let ?doc = "user_record_text padded_message_escaped @ [nl]"
  have h: "''s1'' \<noteq> [] \<and> ''/t/s1.jsonl'' \<noteq> []
        \<and> fst (read_cache (cache_path padded_world ''title'' ''s1'') 300 padded_world) = None
        \<and> \<not> truthy (index_title ''s1'' ''/t/s1.jsonl'' padded_world)
        \<and> read_file padded_world ''/t/s1.jsonl'' = Some ?doc
        \<and> summaries padded_world (scanned padded_world ''summary'' (file_lines ?doc)) = []
        \<and> first_user_message padded_world (scanned padded_world ''user'' (file_lines ?doc))
            = Some padded_message"
    by code_simp
  have l: "length (py_strip padded_message) \<le> 50"
    by code_simp
  have v: "map (\<lambda>ch. if ch = nl then CHR '' '' else ch) (py_strip padded_message) @ ''...''
           = ''fix the build...''"
    by code_simp
  have "\<exists>w'. extract_session_title (JStr ''s1'') (JStr ''/t/s1.jsonl'') padded_world =
              Inr (JStr (map (\<lambda>ch. if ch = nl then CHR '' '' else ch) (py_strip padded_message)
                         @ ''...''), w')"
    using user_message_title_always_ellipsis
            [of padded_world "JStr []" "[]" "''s1''" "''/t/s1.jsonl''" ?doc padded_message]
          h l
    by blast
  then have "\<exists>w'. extract_session_title (JStr ''s1'') (JStr ''/t/s1.jsonl'') padded_world =
              Inr (JStr ''fix the build...'', w')"
    unfolding v .
  then show ?thesis using h l by (simp add: padded_message_def)
qed




section \<open>Resolvers touch only the cache\<close>

lemma cache_step_refl [simp]: "cache_step w w"
  by (simp add: cache_step_def)

lemma cache_step_trans: "cache_step w w1 \<Longrightarrow> cache_step w1 w2 \<Longrightarrow> cache_step w w2"
proof -
  assume a: "cache_step w w1" and b: "cache_step w1 w2"
  have "w2\<lparr>files := files w, trace := trace w, clock := clock w\<rparr>
        = (w2\<lparr>files := files w1, trace := trace w1, clock := clock w1\<rparr>)
            \<lparr>files := files w, trace := trace w, clock := clock w\<rparr>"
    by simp
  also have "\<dots> = w1\<lparr>files := files w, trace := trace w, clock := clock w\<rparr>"
    using b by (simp add: cache_step_def)
  also have "\<dots> = w" using a by (simp add: cache_step_def)
  finally show ?thesis using a b by (simp add: cache_step_def)
qed

lemma cache_step_log: "\<not> is_transport e \<Longrightarrow> cache_step w (log_event e w)"
  by (simp add: cache_step_def log_event_def transport_events_def)

lemma cache_step_write: "cache_step w (write_cache p c w)"
  by (simp add: cache_step_def write_cache_def log_event_def transport_events_def Let_def
        split: json.splits)

lemma cache_step_read: "cache_step w (snd (read_cache p a w))"
  by (simp add: read_cache_snd cache_step_log)

lemma cache_step_git_helper: "cache_step w (snd (git_helper d w))"
  by (simp add: git_helper_def Let_def cache_step_log split: option.splits)

lemma cache_step_git_inline: "cache_step w (snd (git_inline d w))"
  by (simp add: git_inline_def Let_def cache_step_log split: option.splits)

lemma cache_step_detect_git_dir: "cache_step w (snd (detect_git_dir d w))"
proof -
  let ?cp = "cache_path w ''git'' d"
  obtain c w1 where r: "read_cache ?cp 60 w = (c, w1)" by (cases "read_cache ?cp 60 w")
  have s1: "cache_step w w1" using cache_step_read [of w ?cp 60] r by simp
  obtain h w2 where h: "git_helper d w1 = (h, w2)" by (cases "git_helper d w1")
  have s2: "cache_step w w2"
    using cache_step_git_helper [of w1 d] h s1 cache_step_trans by fastforce
  obtain g w3 where i: "git_inline d w2 = (g, w3)" by (cases "git_inline d w2")
  have s3: "cache_step w w3"
    using cache_step_git_inline [of w2 d] i s2 cache_step_trans by fastforce
  show ?thesis
    using r h i s1 s2 s3 cache_step_trans [OF _ cache_step_write]
    by (auto simp: detect_git_dir_def Let_def split: option.splits)
qed

lemma cache_step_detect_git_info:
  assumes "detect_git_info x w = Inr (g, w')"
  shows "cache_step w w'"
proof (cases "\<exists>p. x = JStr p \<and> p \<noteq> [] \<and> is_dir w p")
  case True
  then obtain p where p: "x = JStr p" "p \<noteq> []" "is_dir w p" by blast
  then have "detect_git_dir p w = (g, w')"
    using assms by (simp add: detect_git_info_def)
  then show ?thesis using cache_step_detect_git_dir [of w p] by simp
next
  case False
  then have "w' = w"
    using assms by (cases x) (auto simp: detect_git_info_def split: if_splits)
  then show ?thesis by simp
qed


lemma cache_step_settings:
  assumes "read_autocompact_settings w = Inr (ac, w')"
  shows "cache_step w w'"
proof -
  let ?cp = "path_join w (tmpdir w) ''jacques-settings.cache''"
  let ?w1 = "log_event (CacheRead ?cp) w"
  obtain c where rd: "read_cache ?cp 300 w = (c, ?w1)"
    using read_cache_pair [of ?cp 300 w] by blast
  have s1: "cache_step w ?w1"
    by (simp add: cache_step_log)
  have s2: "cache_step w (write_cache ?cp v ?w1)" for v
    using cache_step_trans [OF s1 cache_step_write] .
  have "w' = ?w1 \<or> (\<exists>v. w' = write_cache ?cp v ?w1)"
    using assms rd
    by (cases c)
       (auto simp: read_autocompact_settings_def bind_err_def Let_def settings_miss_def
             split: sum.splits if_splits)
  then show ?thesis using s1 s2 by auto
qed

lemma cache_step_stdout: "cache_step w w' \<Longrightarrow> stdout w' = stdout w"
proof -
  assume "cache_step w w'"
  then have e: "w'\<lparr>files := files w, trace := trace w, clock := clock w\<rparr> = w"
    by (simp add: cache_step_def)
  have "stdout (w'\<lparr>files := files w, trace := trace w, clock := clock w\<rparr>) = stdout w'"
    by simp
  then show ?thesis using e by simp
qed


lemma cache_step_transport:
  "cache_step w w' \<Longrightarrow> transport_events (trace w') = transport_events (trace w)"
  by (simp add: cache_step_def)

section \<open>Main\<close>

lemma main_dict:
  assumes "environ w ''JACQUES_SUBPROCESS'' \<noteq> Some ''1''"
    and "environ w ''JACQUES_SKIP'' \<noteq> Some ''1''"
    and "\<not> isfile w (path_join w (path_join w (home w) ''.jacques'') ''skip'')"
    and "kvs \<noteq> []"
  shows "main (Some (JObj kvs)) w =
           bind_err (extract_fields (JObj kvs))
             (\<lambda>f. resolve_and_report f (trunc (clock w * 1000)) w)"
  using assms by (simp add: main_def Let_def)

lemma extract_fields_session_id:
  "extract_fields (JObj kvs) = Inr f \<Longrightarrow> ev_session_id f = dict_get kvs ''session_id'' (JStr [])"
  by (auto simp: extract_fields_def bind_err_def split: sum.splits if_splits)

lemma detect_git_info_falsy: "\<not> truthy x \<Longrightarrow> detect_git_info x w = Inr (empty_git, w)"
  by (simp add: detect_git_info_def)

lemma extract_session_title_falsy:
  "\<not> truthy s \<Longrightarrow> extract_session_title s p w = Inr (JStr [], w)"
  by (simp add: extract_session_title_def)

lemma resolve_and_report_steps:
  assumes "detect_git_info (py_or (ev_project_dir f) (ev_cwd f)) w = Inr (g, w1)"
    and "extract_session_title (ev_session_id f) (ev_transcript_path f) w1 = Inr (title, w2)"
    and "read_autocompact_settings w2 = Inr (ac, w3)"
  shows "resolve_and_report f now w =
           (if \<not> truthy (ev_session_id f) then Inr (write_stdout ''ctx:?%'' w3)
            else send_and_print f now g title ac w3)"
proof -
  have g: "(if truthy (py_or (ev_project_dir f) (ev_cwd f))
            then detect_git_info (py_or (ev_project_dir f) (ev_cwd f)) w
            else Inr (empty_git, w)) = Inr (g, w1)"
    using assms(1) detect_git_info_falsy [of "py_or (ev_project_dir f) (ev_cwd f)" w]
    by (cases "truthy (py_or (ev_project_dir f) (ev_cwd f))") simp_all
  show ?thesis
    unfolding resolve_and_report_def Let_def g
    using assms(2,3) by (simp add: bind_err_def)
qed

text \<open>
  C1, as the code has it.  Take an input object that is not empty and has no session id or a
  falsy one, with no skip condition set, and suppose the steps before the session id test do
  not raise: the field extraction, the git resolver and the settings resolver, which all run
  first.  Then \<^const>\<open>main\<close> returns, what it prints is exactly \<^verbatim>\<open>ctx:?%\<close>, and the trace gains no
  transport entry.
\<close>

theorem placeholder_without_session_id:
  assumes "environ w ''JACQUES_SUBPROCESS'' \<noteq> Some ''1''"
    and "environ w ''JACQUES_SKIP'' \<noteq> Some ''1''"
    and "\<not> isfile w (path_join w (path_join w (home w) ''.jacques'') ''skip'')"
    and "kvs \<noteq> []"
    and "\<not> truthy (dict_get kvs ''session_id'' (JStr []))"
    and "extract_fields (JObj kvs) = Inr f"
    and "detect_git_info (py_or (ev_project_dir f) (ev_cwd f)) w = Inr (g, w1)"
    and "read_autocompact_settings w1 = Inr (ac, w2)"
  shows "main (Some (JObj kvs)) w = Inr (write_stdout ''ctx:?%'' w2)
         \<and> stdout (write_stdout ''ctx:?%'' w2) = stdout w @ ''ctx:?%''
         \<and> transport_events (trace (write_stdout ''ctx:?%'' w2)) = transport_events (trace w)"
proof -
  have sid: "\<not> truthy (ev_session_id f)"
    using assms(5) extract_fields_session_id [OF assms(6)] by simp
  have t: "extract_session_title (ev_session_id f) (ev_transcript_path f) w1 = Inr (JStr [], w1)"
    using sid by (rule extract_session_title_falsy)
  have r: "resolve_and_report f (trunc (clock w * 1000)) w = Inr (write_stdout ''ctx:?%'' w2)"
    using resolve_and_report_steps [OF assms(7) t assms(8)] sid by simp
  have m: "main (Some (JObj kvs)) w = Inr (write_stdout ''ctx:?%'' w2)"
    using main_dict [OF assms(1,2,3,4)] assms(6) r by (simp add: bind_err_def)
  have s: "cache_step w w2"
    using cache_step_trans [OF cache_step_detect_git_info [OF assms(7)]
            cache_step_settings [OF assms(8)]] .
  show ?thesis
    using m cache_step_stdout [OF s] cache_step_transport [OF s]
    by (simp add: write_stdout_def)
qed

theorem placeholder_without_session_id_witness:
  "map_sum id stdout (main (Some no_session_event) git_world) = Inr ''ctx:?%''
   \<and> map_sum id (\<lambda>w. transport_events (trace w)) (main (Some no_session_event) git_world)
       = Inr []"
proof -
  let ?kvs = "[(''cwd'', JStr ''/repo'')]"
  let ?f = "projr (extract_fields (JObj ?kvs))"
  let ?g = "detect_git_info (py_or (ev_project_dir ?f) (ev_cwd ?f)) git_world"
  let ?s = "read_autocompact_settings (snd (projr ?g))"
  have h: "environ git_world ''JACQUES_SUBPROCESS'' \<noteq> Some ''1''"
    "environ git_world ''JACQUES_SKIP'' \<noteq> Some ''1''"
    "\<not> isfile git_world
        (path_join git_world (path_join git_world (home git_world) ''.jacques'') ''skip'')"
    "?kvs \<noteq> []"
    "\<not> truthy (dict_get ?kvs ''session_id'' (JStr []))"
    by code_simp+
  have e: "\<not> isl (extract_fields (JObj ?kvs))" by code_simp
  have g: "\<not> isl ?g" by code_simp
  have s: "\<not> isl ?s" by code_simp
  have e': "extract_fields (JObj ?kvs) = Inr ?f" using e by (cases "extract_fields (JObj ?kvs)") simp_all
  have g': "?g = Inr (fst (projr ?g), snd (projr ?g))" using g by (cases ?g) simp_all
  have s': "?s = Inr (fst (projr ?s), snd (projr ?s))" using s by (cases ?s) simp_all
  have o: "stdout git_world = []" "transport_events (trace git_world) = []" by code_simp+
  show ?thesis
    using placeholder_without_session_id [OF h e' g' s'] o
    by (simp add: no_session_event_def)
qed

text \<open>
  C1, as stated, fails.  The input \<^verbatim>\<open>{}\<close> is falsy, so \<^const>\<open>main\<close> returns before the session
  id is looked at and prints nothing.  And for an input without a session id the resolvers are
  not skipped: the trace shows the git cache read, the git subprocess, the git cache write, and
  the settings cache read and write.
\<close>

theorem placeholder_without_session_id_counterexample:
  "map_sum id stdout (main (Some (JObj [])) demo_world) = Inr []
   \<and> map_sum id trace (main (Some no_session_event) git_world)
       = Inr [CacheRead ''/tmp/jacques-git--repo.cache'',
              RunGit ''/repo'',
              CacheWrite ''/tmp/jacques-git--repo.cache''
                (JStr (''main'' @ [nl] @ [nl] @ ''/repo'')),
              CacheRead ''/tmp/jacques-settings.cache'',
              CacheWrite ''/tmp/jacques-settings.cache'' (JStr ''true|95|null'')]"
  by code_simp







end
